theory Spec2Isabelle
  imports Main "HOL-Library.Word"
begin

section \<open>VISCA-over-IP to VISCA gateway: packet codec and relay handlers\<close>

text \<open>
  A shallow embedding of \<^verbatim>\<open>src/index.ts\<close>. JavaScript numbers that the program only
  ever uses as integers are \<open>int\<close>; a \<^verbatim>\<open>Buffer\<close> is a list of 8-bit words; a value that
  may be \<^verbatim>\<open>null\<close> is an \<open>option\<close>; a \<^verbatim>\<open>throw\<close> is the left summand of a sum.
\<close>

subsection \<open>Data\<close>

type_synonym byte = "8 word"
type_synonym Buffer = "byte list"

text \<open>The numeric enum \<^verbatim>\<open>ViscaIpPacketType\<close> and the number each member stands for.\<close>

datatype ViscaIpPacketType =
  command | inquiry | reply | deviceSettingCommand | controlCommand | controlReply

fun type_value :: "ViscaIpPacketType \<Rightarrow> int" where
  "type_value command = 0x0100"
| "type_value inquiry = 0x0110"
| "type_value reply = 0x0111"
| "type_value deviceSettingCommand = 0x0120"
| "type_value controlCommand = 0x0200"
| "type_value controlReply = 0x0201"

text \<open>
  Class \<^verbatim>\<open>ViscaIpPacket\<close>. The field \<^verbatim>\<open>length\<close> is \<open>length_field\<close> here. The field
  \<^verbatim>\<open>sequenceNumber\<close> is declared \<^verbatim>\<open>number\<close> but the serial handler passes the module
  variable \<^verbatim>\<open>currentSequenceNumber\<close>, which starts as \<^verbatim>\<open>null\<close>: \<open>None\<close> is \<^verbatim>\<open>null\<close>.
\<close>

record ViscaIpPacket =
  type :: ViscaIpPacketType
  length_field :: int
  sequenceNumber :: "int option"
  payload :: Buffer

text \<open>
  What the program throws: the two \<^verbatim>\<open>Error\<close>s of the codec (with the numbers their
  messages are built from), the \<^verbatim>\<open>RangeError\<close> of a \<^verbatim>\<open>Buffer\<close> read past the end,
  and the \<^verbatim>\<open>TypeError\<close> of a property read on \<^verbatim>\<open>null\<close>.
\<close>

datatype error =
  UnknownPacketType int
| PayloadLengthMismatch int int
| RangeError
| TypeError

subsection \<open>JavaScript and Buffer primitives\<close>

text \<open>\<^verbatim>\<open>ToNumber(null)\<close> is 0.\<close>

fun ToNumber :: "int option \<Rightarrow> int" where
  "ToNumber None = 0"
| "ToNumber (Some n) = n"

text \<open>\<^verbatim>\<open>x >>> k\<close>: the operand is first reduced to an unsigned 32-bit integer.\<close>

definition ushr :: "int \<Rightarrow> nat \<Rightarrow> int" where
  "ushr x k = (x mod 2 ^ 32) div 2 ^ k"

text \<open>\<^verbatim>\<open>Buffer.from(array)\<close> keeps the low eight bits of each entry.\<close>

definition Buffer_from :: "int list \<Rightarrow> Buffer" where
  "Buffer_from xs = map word_of_int xs"

text \<open>
  \<^verbatim>\<open>buffer.readUInt16BE(offset)\<close> and \<^verbatim>\<open>buffer.readUInt32BE(offset)\<close>: a
  \<^verbatim>\<open>RangeError\<close> when the first or the last byte read lies outside the buffer.
\<close>

definition readUInt16BE :: "Buffer \<Rightarrow> nat \<Rightarrow> error + int" where
  "readUInt16BE buffer offset =
     (if offset + 1 < length buffer
      then Inr (uint (buffer ! offset) * 2 ^ 8 + uint (buffer ! (offset + 1)))
      else Inl RangeError)"

definition readUInt32BE :: "Buffer \<Rightarrow> nat \<Rightarrow> error + int" where
  "readUInt32BE buffer offset =
     (if offset + 3 < length buffer
      then Inr (uint (buffer ! offset) * 2 ^ 24
              + uint (buffer ! (offset + 1)) * 2 ^ 16
              + uint (buffer ! (offset + 2)) * 2 ^ 8
              + uint (buffer ! (offset + 3)))
      else Inl RangeError)"

text \<open>\<^verbatim>\<open>buffer.subarray(start)\<close>: the bytes from \<open>start\<close> on, none when there are fewer.\<close>

definition subarray :: "Buffer \<Rightarrow> nat \<Rightarrow> Buffer" where
  "subarray buffer start = drop start buffer"

subsection \<open>The packet codec\<close>

definition toBuffer :: "ViscaIpPacket \<Rightarrow> Buffer" where
  "toBuffer p =
     Buffer_from
       [ ushr (type_value (type p)) 8,
         type_value (type p),
         ushr (length_field p) 8,
         length_field p,
         ushr (ToNumber (sequenceNumber p)) 24,
         ushr (ToNumber (sequenceNumber p)) 16,
         ushr (ToNumber (sequenceNumber p)) 8,
         ToNumber (sequenceNumber p) ]
     @ payload p"

definition parseType :: "int \<Rightarrow> error + ViscaIpPacketType" where
  "parseType v =
     (if v = type_value command then Inr command
      else if v = type_value inquiry then Inr inquiry
      else if v = type_value reply then Inr reply
      else if v = type_value deviceSettingCommand then Inr deviceSettingCommand
      else if v = type_value controlCommand then Inr controlCommand
      else if v = type_value controlReply then Inr controlReply
      else Inl (UnknownPacketType v))"

definition fromBuffer :: "Buffer \<Rightarrow> error + ViscaIpPacket" where
  "fromBuffer buffer =
     (case readUInt16BE buffer 0 of
        Inl e \<Rightarrow> Inl e
      | Inr v \<Rightarrow>
     (case parseType v of
        Inl e \<Rightarrow> Inl e
      | Inr t \<Rightarrow>
     (case readUInt16BE buffer 2 of
        Inl e \<Rightarrow> Inl e
      | Inr len \<Rightarrow>
     (case readUInt32BE buffer 4 of
        Inl e \<Rightarrow> Inl e
      | Inr sn \<Rightarrow>
          let pl = subarray buffer 8 in
          if int (length pl) \<noteq> len
          then Inl (PayloadLengthMismatch len (int (length pl)))
          else Inr \<lparr> type = t, length_field = len,
                     sequenceNumber = Some sn, payload = pl \<rparr>))))"

definition fromPayload :: "ViscaIpPacketType \<Rightarrow> int option \<Rightarrow> Buffer \<Rightarrow> ViscaIpPacket" where
  "fromPayload t sn pl =
     \<lparr> type = t, length_field = int (length pl), sequenceNumber = sn, payload = pl \<rparr>"

text \<open>
  The packet-type parser of the earlier revision of the program (kept in the repository's
  README): its enum has the first three members only, with the same numbers, and the
  third test returns \<^verbatim>\<open>ViscaIpPacketType.command\<close>. Its \<^verbatim>\<open>Error\<close> prints the number
  in another format; the error value here carries the number only.
\<close>

definition parseType_legacy :: "int \<Rightarrow> error + ViscaIpPacketType" where
  "parseType_legacy v =
     (if v = type_value command then Inr command
      else if v = type_value inquiry then Inr inquiry
      else if v = type_value reply then Inr command
      else Inl (UnknownPacketType v))"

subsection \<open>The relay\<close>

text \<open>dgram's \<^verbatim>\<open>RemoteInfo\<close>.\<close>

record RemoteInfo =
  address :: string
  family :: string
  port :: int
  size_field :: int

text \<open>The three module variables, all \<^verbatim>\<open>null\<close> when the program starts.\<close>

record session =
  currentSequenceNumber :: "int option"
  currentRemoteInfo :: "RemoteInfo option"
  currentPacketType :: "ViscaIpPacketType option"

definition initial_session :: session where
  "initial_session =
     \<lparr> currentSequenceNumber = None, currentRemoteInfo = None, currentPacketType = None \<rparr>"

text \<open>
  What a handler does to the outside: a line on the console (named after its prefix, with
  the bytes or the error it prints), a write to the serial port, a datagram sent to a port
  and an address. \<^verbatim>\<open>serialPort.write\<close> and \<^verbatim>\<open>socket.send\<close> report a failure later,
  through a callback that only prints it; the calls themselves return.
\<close>

datatype logline =
  SocketRECV Buffer
| SerialSEND Buffer
| SocketRECVError error
| SerialRECV Buffer
| SocketSEND Buffer

datatype effect =
  ConsoleLog logline
| SerialWrite Buffer
| SocketSend Buffer int string

text \<open>
  \<^verbatim>\<open>socket.on('message')\<close>. The whole body is inside \<^verbatim>\<open>try\<close>, so the handler always
  returns; the assignments come after \<^verbatim>\<open>fromBuffer\<close>, so a throw leaves the variables
  alone.
\<close>

definition socket_on_message :: "session \<Rightarrow> Buffer \<Rightarrow> RemoteInfo \<Rightarrow> effect list \<times> session" where
  "socket_on_message s msgBuffer remoteInfo =
     (case fromBuffer msgBuffer of
        Inl e \<Rightarrow> ([ConsoleLog (SocketRECVError e)], s)
      | Inr receivedPacket \<Rightarrow>
          ( [ ConsoleLog (SocketRECV (toBuffer receivedPacket)),
              ConsoleLog (SerialSEND (payload receivedPacket)),
              SerialWrite (payload receivedPacket) ],
            s \<lparr> currentSequenceNumber := sequenceNumber receivedPacket,
                currentRemoteInfo := Some remoteInfo,
                currentPacketType := Some (type receivedPacket) \<rparr> ))"

text \<open>
  \<^verbatim>\<open>serialPortParser.on('data')\<close>. There is no \<^verbatim>\<open>try\<close> here: reading
  \<^verbatim>\<open>currentRemoteInfo.port\<close> while the variable is \<^verbatim>\<open>null\<close> throws a \<^verbatim>\<open>TypeError\<close>
  out of the handler, after the two console lines and before \<^verbatim>\<open>socket.send\<close> is
  called. The handler assigns to no module variable.
\<close>

definition responsePacketType :: "session \<Rightarrow> ViscaIpPacketType" where
  "responsePacketType s =
     (if currentPacketType s = Some controlCommand then controlReply else reply)"

definition responsePacket :: "session \<Rightarrow> Buffer \<Rightarrow> ViscaIpPacket" where
  "responsePacket s responseData =
     fromPayload (responsePacketType s) (currentSequenceNumber s) responseData"

definition serial_on_data :: "session \<Rightarrow> Buffer \<Rightarrow> effect list \<times> (error + unit)" where
  "serial_on_data s responseData =
     (let logs = [ ConsoleLog (SerialRECV responseData),
                   ConsoleLog (SocketSEND (toBuffer (responsePacket s responseData))) ]
      in case currentRemoteInfo s of
           None \<Rightarrow> (logs, Inl TypeError)
         | Some ri \<Rightarrow>
             (logs @ [SocketSend (toBuffer (responsePacket s responseData)) (port ri) (address ri)],
              Inr ()))"

text \<open>
  The process: events are handled one at a time, in order. No handler for uncaught
  exceptions is installed, so an exception that leaves a handler ends the process, and
  the events after it are never handled.
\<close>

datatype event =
  Message Buffer RemoteInfo
| Data Buffer

fun step :: "session \<Rightarrow> event \<Rightarrow> effect list \<times> (error + session)" where
  "step s (Message msgBuffer remoteInfo) =
     (case socket_on_message s msgBuffer remoteInfo of (fx, s') \<Rightarrow> (fx, Inr s'))"
| "step s (Data responseData) =
     (case serial_on_data s responseData of
        (fx, Inl e) \<Rightarrow> (fx, Inl e)
      | (fx, Inr _) \<Rightarrow> (fx, Inr s))"

fun run :: "session \<Rightarrow> event list \<Rightarrow> effect list \<times> (error + session)" where
  "run s [] = ([], Inr s)"
| "run s (e # es) =
     (case step s e of
        (fx, Inl err) \<Rightarrow> (fx, Inl err)
      | (fx, Inr s') \<Rightarrow> (case run s' es of (fx', r) \<Rightarrow> (fx @ fx', r)))"



subsection \<open>Vocabulary of the specification\<close>

text \<open>The six category codes of the wire format, as numbers.\<close>

definition known_codes :: "int set" where
  "known_codes = {0x0100, 0x0110, 0x0111, 0x0120, 0x0200, 0x0201}"

text \<open>
  The two decoding failures the specification defines, \<open>UnknownCategory\<close> and
  \<open>LengthMismatch\<close>, are the two \<^verbatim>\<open>Error\<close>s that the codec itself throws.
\<close>

fun is_MalformedPacket :: "error \<Rightarrow> bool" where
  "is_MalformedPacket (UnknownPacketType _) = True"
| "is_MalformedPacket (PayloadLengthMismatch _ _) = True"
| "is_MalformedPacket RangeError = False"
| "is_MalformedPacket TypeError = False"

text \<open>
  A valid packet: the sequence number is an unsigned 32-bit integer, the length field is
  the payload's byte count, and that count fits the 16-bit field. (The category is one of
  the six by its type.)
\<close>

definition valid_packet :: "ViscaIpPacket \<Rightarrow> bool" where
  "valid_packet p \<longleftrightarrow>
     (case sequenceNumber p of None \<Rightarrow> False | Some n \<Rightarrow> 0 \<le> n \<and> n < 2 ^ 32)
     \<and> length_field p = int (length (payload p))
     \<and> length (payload p) \<le> 65535"

section \<open>Properties of the codec\<close>

subsection \<open>Reading the header\<close>

lemma parseType_unknown:
  "v \<notin> known_codes \<Longrightarrow> parseType v = Inl (UnknownPacketType v)"
  by (simp add: parseType_def known_codes_def)

lemma parseType_type_value: "parseType (type_value t) = Inr t"
  by (cases t) (simp_all add: parseType_def)

lemma parseType_known:
  "v \<in> known_codes \<Longrightarrow> \<exists>t. parseType v = Inr t \<and> type_value t = v"
  by (auto simp add: parseType_def known_codes_def)

lemma fromBuffer_too_short_for_type:
  "length buffer < 2 \<Longrightarrow> fromBuffer buffer = Inl RangeError"
  by (simp add: fromBuffer_def readUInt16BE_def)

lemma fromBuffer_unknown:
  assumes "2 \<le> length buffer"
    and "uint (buffer ! 0) * 2 ^ 8 + uint (buffer ! 1) \<notin> known_codes"
  shows "fromBuffer buffer =
           Inl (UnknownPacketType (uint (buffer ! 0) * 2 ^ 8 + uint (buffer ! 1)))"
proof -
  have "readUInt16BE buffer 0 = Inr (uint (buffer ! 0) * 2 ^ 8 + uint (buffer ! 1))"
    using assms(1) by (simp add: readUInt16BE_def)
  then show ?thesis
    using parseType_unknown [OF assms(2)] by (simp add: fromBuffer_def)
qed

lemma fromBuffer_known_short:
  assumes "2 \<le> length buffer" and "length buffer < 8"
    and "uint (buffer ! 0) * 2 ^ 8 + uint (buffer ! 1) \<in> known_codes"
  shows "fromBuffer buffer = Inl RangeError"
proof -
  have r: "readUInt16BE buffer 0 = Inr (uint (buffer ! 0) * 2 ^ 8 + uint (buffer ! 1))"
    using assms(1) by (simp add: readUInt16BE_def)
  obtain t where t: "parseType (uint (buffer ! 0) * 2 ^ 8 + uint (buffer ! 1)) = Inr t"
    using parseType_known [OF assms(3)] by blast
  show ?thesis
  proof (cases "length buffer < 4")
    case True
    then have "readUInt16BE buffer 2 = Inl RangeError"
      by (simp add: readUInt16BE_def)
    with r t show ?thesis by (simp add: fromBuffer_def)
  next
    case False
    then have l: "readUInt16BE buffer 2 = Inr (uint (buffer ! 2) * 2 ^ 8 + uint (buffer ! 3))"
      by (simp add: readUInt16BE_def)
    have "readUInt32BE buffer 4 = Inl RangeError"
      using assms(2) by (simp add: readUInt32BE_def)
    with r t l show ?thesis by (simp add: fromBuffer_def)
  qed
qed

lemma fromBuffer_full:
  assumes "8 \<le> length buffer"
    and "parseType (uint (buffer ! 0) * 2 ^ 8 + uint (buffer ! 1)) = Inr t"
  shows "fromBuffer buffer =
     (if int (length buffer - 8) \<noteq> uint (buffer ! 2) * 2 ^ 8 + uint (buffer ! 3)
      then Inl (PayloadLengthMismatch (uint (buffer ! 2) * 2 ^ 8 + uint (buffer ! 3))
                  (int (length buffer - 8)))
      else Inr \<lparr> type = t,
                 length_field = uint (buffer ! 2) * 2 ^ 8 + uint (buffer ! 3),
                 sequenceNumber = Some (uint (buffer ! 4) * 2 ^ 24 + uint (buffer ! 5) * 2 ^ 16
                                      + uint (buffer ! 6) * 2 ^ 8 + uint (buffer ! 7)),
                 payload = drop 8 buffer \<rparr>)"
proof -
  have r: "readUInt16BE buffer 0 = Inr (uint (buffer ! 0) * 2 ^ 8 + uint (buffer ! 1))"
    using assms(1) by (simp add: readUInt16BE_def)
  have l: "readUInt16BE buffer 2 = Inr (uint (buffer ! 2) * 2 ^ 8 + uint (buffer ! 3))"
    using assms(1) by (simp add: readUInt16BE_def)
  have q: "readUInt32BE buffer 4 = Inr (uint (buffer ! 4) * 2 ^ 24 + uint (buffer ! 5) * 2 ^ 16
                                      + uint (buffer ! 6) * 2 ^ 8 + uint (buffer ! 7))"
    using assms(1) by (simp add: readUInt32BE_def)
  show ?thesis
    using r l q assms by (simp add: fromBuffer_def subarray_def Let_def)
qed



subsection \<open>Big-endian bytes of a number\<close>

lemma uint_byte_of_int: "uint (word_of_int x :: byte) = x mod 256"
  by (simp add: uint_word_of_int_eq take_bit_eq_mod)

lemma ushr_in_range: "0 \<le> x \<Longrightarrow> x < 2 ^ 32 \<Longrightarrow> ushr x k = x div 2 ^ k"
  by (simp add: ushr_def)

lemma be16_split:
  assumes "0 \<le> x" "x < 65536"
  shows "uint (word_of_int (ushr x 8) :: byte) * 2 ^ 8 + uint (word_of_int x :: byte) = x"
proof -
  have a: "ushr x 8 = x div 256" using assms by (simp add: ushr_in_range)
  have b: "x div 256 mod 256 = x div 256" using assms by simp
  have c: "x div 256 * 256 + x mod 256 = x" by simp
  show ?thesis
    unfolding uint_byte_of_int a b using c by simp
qed

lemma be32_split:
  assumes "0 \<le> x" "x < 2 ^ 32"
  shows "uint (word_of_int (ushr x 24) :: byte) * 2 ^ 24
       + uint (word_of_int (ushr x 16) :: byte) * 2 ^ 16
       + uint (word_of_int (ushr x 8) :: byte) * 2 ^ 8
       + uint (word_of_int x :: byte) = x"
proof -
  define y1 where "y1 = x div 256"
  define y2 where "y2 = y1 div 256"
  define y3 where "y3 = y2 div 256"
  have s8: "ushr x 8 = y1" using assms by (simp add: ushr_in_range y1_def)
  have s16: "ushr x 16 = y2"
    using assms by (simp add: ushr_in_range y1_def y2_def zdiv_zmult2_eq)
  have s24: "ushr x 24 = y3"
    using assms by (simp add: ushr_in_range y1_def y2_def y3_def zdiv_zmult2_eq)
  have e0: "y1 * 256 + x mod 256 = x" by (simp add: y1_def)
  have e1: "y2 * 256 + y1 mod 256 = y1" by (simp add: y2_def)
  have e2: "y3 * 256 + y2 mod 256 = y2" by (simp add: y3_def)
  have "0 \<le> y3" "y3 < 256"
    using assms by (simp_all add: y1_def y2_def y3_def zdiv_zmult2_eq)
  then have e3: "y3 mod 256 = y3" by simp
  show ?thesis
    unfolding uint_byte_of_int s8 s16 s24 e3 using e0 e1 e2 by simp
qed

lemma type_value_range: "0 \<le> type_value t \<and> type_value t < 65536"
  by (cases t) simp_all

subsection \<open>Encoding, then decoding\<close>

lemma toBuffer_length: "length (toBuffer p) = 8 + length (payload p)"
  by (simp add: toBuffer_def Buffer_from_def)

lemma toBuffer_drop: "drop 8 (toBuffer p) = payload p"
  by (simp add: toBuffer_def Buffer_from_def)

lemma toBuffer_nth:
  "toBuffer p ! 0 = word_of_int (ushr (type_value (type p)) 8)"
  "toBuffer p ! 1 = word_of_int (type_value (type p))"
  "toBuffer p ! 2 = word_of_int (ushr (length_field p) 8)"
  "toBuffer p ! 3 = word_of_int (length_field p)"
  "toBuffer p ! 4 = word_of_int (ushr (ToNumber (sequenceNumber p)) 24)"
  "toBuffer p ! 5 = word_of_int (ushr (ToNumber (sequenceNumber p)) 16)"
  "toBuffer p ! 6 = word_of_int (ushr (ToNumber (sequenceNumber p)) 8)"
  "toBuffer p ! 7 = word_of_int (ToNumber (sequenceNumber p))"
  by (simp_all add: toBuffer_def Buffer_from_def nth_append numeral_nat)

lemma fromBuffer_toBuffer:
  assumes sn: "sequenceNumber p = Some n" "0 \<le> n" "n < 2 ^ 32"
    and len: "length_field p = int (length (payload p))" "length (payload p) \<le> 65535"
  shows "fromBuffer (toBuffer p) = Inr p"
proof -
  let ?b = "toBuffer p"
  have t16: "uint (?b ! 0) * 2 ^ 8 + uint (?b ! 1) = type_value (type p)"
    unfolding toBuffer_nth using type_value_range [of "type p"] by (intro be16_split) simp_all
  have l16: "uint (?b ! 2) * 2 ^ 8 + uint (?b ! 3) = length_field p"
    unfolding toBuffer_nth using len by (intro be16_split) simp_all
  have s32: "uint (?b ! 4) * 2 ^ 24 + uint (?b ! 5) * 2 ^ 16
             + uint (?b ! 6) * 2 ^ 8 + uint (?b ! 7) = n"
    unfolding toBuffer_nth sn(1) ToNumber.simps using sn(2,3) by (intro be32_split)
  have pt: "parseType (uint (?b ! 0) * 2 ^ 8 + uint (?b ! 1)) = Inr (type p)"
    unfolding t16 by (rule parseType_type_value)
  have ge: "8 \<le> length ?b" by (simp add: toBuffer_length)
  have "fromBuffer ?b = Inr \<lparr> type = type p, length_field = length_field p,
                             sequenceNumber = Some n, payload = payload p \<rparr>"
    unfolding fromBuffer_full [OF ge pt] l16 s32 toBuffer_drop
    by (simp add: toBuffer_length len)
  also have "\<lparr> type = type p, length_field = length_field p,
               sequenceNumber = Some n, payload = payload p \<rparr> = p"
    using sn(1) by simp
  finally show ?thesis .
qed

text \<open>
  Claim C2. For every valid packet (sequence number an unsigned 32-bit integer, length
  field equal to the payload's byte count, at most 65535 payload bytes, any of the six
  categories), decoding the encoding succeeds and returns the packet itself, equal in
  all four fields.
\<close>

theorem decode_encode_roundtrip:
  "valid_packet p \<Longrightarrow> fromBuffer (toBuffer p) = Inr p"
  by (auto simp add: valid_packet_def split: option.splits intro: fromBuffer_toBuffer)

theorem decode_encode_roundtrip_witness:
  "valid_packet \<lparr> type = inquiry, length_field = 3, sequenceNumber = Some 4294967295,
                  payload = [0x81, 0x09, 0xFF] \<rparr>
   \<and> fromBuffer (toBuffer \<lparr> type = inquiry, length_field = 3,
                             sequenceNumber = Some 4294967295, payload = [0x81, 0x09, 0xFF] \<rparr>)
     = Inr \<lparr> type = inquiry, length_field = 3, sequenceNumber = Some 4294967295,
             payload = [0x81, 0x09, 0xFF] \<rparr>"
  using decode_encode_roundtrip
    [of "\<lparr> type = inquiry, length_field = 3, sequenceNumber = Some 4294967295,
           payload = [0x81, 0x09, 0xFF] \<rparr>"]
  by (simp add: valid_packet_def)

text \<open>
  Claim C7. For every input of at least 8 bytes whose first two bytes, read big-endian,
  are a number outside the six category codes, decoding fails with the unknown-type error
  carrying that number, whatever the remaining bytes are.
\<close>

theorem decode_rejects_unknown_category:
  assumes "8 \<le> length buffer"
    and "code = uint (buffer ! 0) * 2 ^ 8 + uint (buffer ! 1)"
    and "code \<notin> known_codes"
  shows "fromBuffer buffer = Inl (UnknownPacketType code)"
  using assms fromBuffer_unknown [of buffer] by simp

theorem decode_rejects_unknown_category_witness:
  "fromBuffer [0x00, 0x00, 0, 0, 0, 0, 0, 0] = Inl (UnknownPacketType 0x0000)
   \<and> fromBuffer [0xFF, 0xFF, 0, 1, 0, 0, 0, 9, 0x81] = Inl (UnknownPacketType 0xFFFF)"
  using decode_rejects_unknown_category [of "[0x00, 0x00, 0, 0, 0, 0, 0, 0]" "0x0000"]
        decode_rejects_unknown_category [of "[0xFF, 0xFF, 0, 1, 0, 0, 0, 9, 0x81]" "0xFFFF"]
  by (simp add: known_codes_def)

text \<open>
  Claim C6. For every input of at least 8 bytes whose first two bytes are one of the six
  category codes, decoding fails with the length error, carrying the declared length
  (bytes 2 and 3, big-endian) and the actual number of bytes after the header, whenever
  the two differ. No packet with a shortened or lengthened payload is returned.
\<close>

theorem decode_length_mismatch:
  assumes "8 \<le> length buffer"
    and "uint (buffer ! 0) * 2 ^ 8 + uint (buffer ! 1) \<in> known_codes"
    and "declared = uint (buffer ! 2) * 2 ^ 8 + uint (buffer ! 3)"
    and "actual = int (length buffer) - 8"
    and "declared \<noteq> actual"
  shows "fromBuffer buffer = Inl (PayloadLengthMismatch declared actual)"
proof -
  obtain t where t: "parseType (uint (buffer ! 0) * 2 ^ 8 + uint (buffer ! 1)) = Inr t"
    using parseType_known [OF assms(2)] by blast
  have "int (length buffer - 8) = actual"
    using assms(1,4) by simp
  then show ?thesis
    using fromBuffer_full [OF assms(1) t] assms(3,5) by auto
qed

theorem decode_length_mismatch_witness:
  "fromBuffer [0x01, 0x00, 0, 2, 0, 0, 0, 7, 0x81] = Inl (PayloadLengthMismatch 2 1)
   \<and> fromBuffer [0x02, 0x01, 0, 0, 0, 0, 0, 7, 0x81] = Inl (PayloadLengthMismatch 0 1)"
  using decode_length_mismatch [of "[0x01, 0x00, 0, 2, 0, 0, 0, 7, 0x81]" 2 1]
        decode_length_mismatch [of "[0x02, 0x01, 0, 0, 0, 0, 0, 7, 0x81]" 0 1]
  by (simp add: known_codes_def)

text \<open>
  Claim C10. The category is checked before the length: for every input of at least 8
  bytes whose first two bytes are an unknown code and whose declared length differs from
  the number of bytes after the header, decoding fails with the unknown-type error, and
  with no length error.
\<close>

theorem decode_category_before_length:
  assumes "8 \<le> length buffer"
    and "code = uint (buffer ! 0) * 2 ^ 8 + uint (buffer ! 1)"
    and "code \<notin> known_codes"
    and "uint (buffer ! 2) * 2 ^ 8 + uint (buffer ! 3) \<noteq> int (length buffer) - 8"
  shows "fromBuffer buffer = Inl (UnknownPacketType code)
         \<and> fromBuffer buffer \<noteq> Inl (PayloadLengthMismatch declared actual)"
proof -
  have "fromBuffer buffer = Inl (UnknownPacketType code)"
    using assms(1-3) fromBuffer_unknown [of buffer] by simp
  then show ?thesis by simp
qed

theorem decode_category_before_length_witness:
  "fromBuffer [0x03, 0x00, 0, 5, 0, 0, 0, 1, 0x81, 0xFF] = Inl (UnknownPacketType 0x0300)
   \<and> fromBuffer [0x03, 0x00, 0, 5, 0, 0, 0, 1, 0x81, 0xFF] \<noteq> Inl (PayloadLengthMismatch 5 2)"
  using decode_category_before_length
    [of "[0x03, 0x00, 0, 5, 0, 0, 0, 1, 0x81, 0xFF]" "0x0300" 5 2]
  by (simp add: known_codes_def)

text \<open>
  Claim C9. The earlier revision's type parser sends the reply code 0x0111 to the command
  category, the current one sends it to the reply category. On every other number the
  two return the same, or the earlier one rejects the number. So 0x0111 is the one number
  that both accept with different categories.
\<close>

theorem parseType_revisions_differ:
  "parseType_legacy 0x0111 = Inr command
   \<and> parseType 0x0111 = Inr reply
   \<and> (v \<noteq> 0x0111 \<longrightarrow>
        parseType_legacy v = parseType v \<or> parseType_legacy v = Inl (UnknownPacketType v))
   \<and> ((\<exists>a b. parseType_legacy v = Inr a \<and> parseType v = Inr b \<and> a \<noteq> b)
        \<longleftrightarrow> v = 0x0111)"
  by (auto simp add: parseType_legacy_def parseType_def)

theorem parseType_revisions_differ_witness:
  "(0x0110 :: int) \<noteq> 0x0111
   \<and> (parseType_legacy 0x0110 = parseType 0x0110
        \<or> parseType_legacy 0x0110 = Inl (UnknownPacketType 0x0110))
   \<and> (0x0200 :: int) \<noteq> 0x0111
   \<and> (parseType_legacy 0x0200 = parseType 0x0200
        \<or> parseType_legacy 0x0200 = Inl (UnknownPacketType 0x0200))
   \<and> (\<exists>a b. parseType_legacy 0x0111 = Inr a \<and> parseType 0x0111 = Inr b \<and> a \<noteq> b)"
  using parseType_revisions_differ [of "0x0110"] parseType_revisions_differ [of "0x0200"]
        parseType_revisions_differ [of "0x0111"]
  by simp

section \<open>Properties of the relay\<close>



lemma socket_on_message_error:
  "fromBuffer msgBuffer = Inl e \<Longrightarrow>
   socket_on_message s msgBuffer remoteInfo = ([ConsoleLog (SocketRECVError e)], s)"
  by (simp add: socket_on_message_def)

text \<open>
  Claim C1, at the input where the program departs from it. The process has just started
  (the three variables are \<^verbatim>\<open>null\<close>) and the frame \<open>90 50 FF\<close> arrives from the serial
  port, followed by a valid datagram. The handler prints its two lines (the second one
  shows a reply packet with sequence number 0), then throws a \<^verbatim>\<open>TypeError\<close> on
  \<^verbatim>\<open>currentRemoteInfo.port\<close>. No datagram is sent, but the exception leaves the handler
  uncaught: the process ends, and the datagram that follows is never handled.
\<close>

theorem orphan_frame_throws:
  "run initial_session
     [Data [0x90, 0x50, 0xFF],
      Message [0x01, 0x00, 0, 0, 0, 0, 0, 1]
        \<lparr> address = ''192.168.0.9'', family = ''IPv4'', port = 52381, size_field = 8 \<rparr>]
   = ([ConsoleLog (SerialRECV [0x90, 0x50, 0xFF]),
       ConsoleLog (SocketSEND [0x01, 0x11, 0, 3, 0, 0, 0, 0, 0x90, 0x50, 0xFF])],
      Inl TypeError)"
  by (simp add: initial_session_def serial_on_data_def responsePacket_def
      responsePacketType_def fromPayload_def toBuffer_def Buffer_from_def ushr_def)

text \<open>
  Claim C5. When the datagram does not decode, whatever the failure, the message handler
  prints one error line and does nothing else: no datagram is sent, nothing is written to
  the serial port, and the three variables are as they were.
\<close>

theorem malformed_datagram_discarded:
  assumes "fromBuffer msgBuffer = Inl e"
  shows "socket_on_message s msgBuffer remoteInfo = ([ConsoleLog (SocketRECVError e)], s)"
  using assms by (rule socket_on_message_error)

theorem malformed_datagram_discarded_witness:
  "socket_on_message
     \<lparr> currentSequenceNumber = Some 7,
       currentRemoteInfo =
         Some \<lparr> address = ''10.0.0.2'', family = ''IPv4'', port = 40000, size_field = 9 \<rparr>,
       currentPacketType = Some controlCommand \<rparr>
     [0xFF, 0xFF, 0, 0, 0, 0, 0, 8]
     \<lparr> address = ''10.0.0.3'', family = ''IPv4'', port = 40001, size_field = 8 \<rparr>
   = ([ConsoleLog (SocketRECVError (UnknownPacketType 0xFFFF))],
      \<lparr> currentSequenceNumber = Some 7,
        currentRemoteInfo =
          Some \<lparr> address = ''10.0.0.2'', family = ''IPv4'', port = 40000, size_field = 9 \<rparr>,
        currentPacketType = Some controlCommand \<rparr>)
   \<and> socket_on_message initial_session
     [0x01, 0x00, 0, 4, 0, 0, 0, 8, 0x81]
     \<lparr> address = ''10.0.0.3'', family = ''IPv4'', port = 40001, size_field = 9 \<rparr>
   = ([ConsoleLog (SocketRECVError (PayloadLengthMismatch 4 1))], initial_session)"
proof -
  have a: "fromBuffer [0xFF, 0xFF, 0, 0, 0, 0, 0, 8] = Inl (UnknownPacketType 0xFFFF)"
    by (simp add: fromBuffer_def readUInt16BE_def parseType_def)
  have b: "fromBuffer [0x01, 0x00, 0, 4, 0, 0, 0, 8, 0x81] = Inl (PayloadLengthMismatch 4 1)"
    by (simp add: fromBuffer_def readUInt16BE_def readUInt32BE_def parseType_def subarray_def)
  show ?thesis
    using malformed_datagram_discarded [OF a] malformed_datagram_discarded [OF b] by simp
qed

text \<open>
  Claim C8, as the program behaves. For every input shorter than 8 bytes decoding fails
  and returns no packet. The failure is the unknown-type error when at least two bytes
  are present and they are an unknown code; in every other case it is the
  \<^verbatim>\<open>RangeError\<close> of the buffer read that runs past the end, which is neither of the
  two failures the codec defines. The message handler treats it as it treats every
  decoding failure: it prints one error line carrying that failure, sends nothing, writes
  nothing to the serial port and leaves the three variables as they were.
\<close>

theorem decode_short_input:
  assumes "length buffer < 8"
  shows "fromBuffer buffer =
     (if 2 \<le> length buffer \<and> uint (buffer ! 0) * 2 ^ 8 + uint (buffer ! 1) \<notin> known_codes
      then Inl (UnknownPacketType (uint (buffer ! 0) * 2 ^ 8 + uint (buffer ! 1)))
      else Inl RangeError)
   \<and> socket_on_message s buffer remoteInfo =
     ([ConsoleLog (SocketRECVError
         (if 2 \<le> length buffer \<and> uint (buffer ! 0) * 2 ^ 8 + uint (buffer ! 1) \<notin> known_codes
          then UnknownPacketType (uint (buffer ! 0) * 2 ^ 8 + uint (buffer ! 1))
          else RangeError))],
      s)"
proof -
  define e where "e =
     (if 2 \<le> length buffer \<and> uint (buffer ! 0) * 2 ^ 8 + uint (buffer ! 1) \<notin> known_codes
      then UnknownPacketType (uint (buffer ! 0) * 2 ^ 8 + uint (buffer ! 1))
      else RangeError)"
  have dec: "fromBuffer buffer = Inl e"
  proof (cases "2 \<le> length buffer")
    case False
    then show ?thesis by (simp add: e_def fromBuffer_too_short_for_type)
  next
    case True
    then show ?thesis
      using assms fromBuffer_unknown [of buffer] fromBuffer_known_short [of buffer]
      by (simp add: e_def)
  qed
  have "socket_on_message s buffer remoteInfo = ([ConsoleLog (SocketRECVError e)], s)"
    using dec by (rule socket_on_message_error)
  with dec show ?thesis
    unfolding e_def by (simp split: if_splits)
qed

theorem decode_short_input_witness:
  "fromBuffer [] = Inl RangeError
   \<and> fromBuffer [0x01, 0x00, 0, 0, 0, 0, 0] = Inl RangeError
   \<and> fromBuffer [0xFF, 0xFF, 0] = Inl (UnknownPacketType 0xFFFF)
   \<and> socket_on_message
       \<lparr> currentSequenceNumber = Some 7,
         currentRemoteInfo =
           Some \<lparr> address = ''10.0.0.2'', family = ''IPv4'', port = 40000, size_field = 9 \<rparr>,
         currentPacketType = Some controlCommand \<rparr>
       [0x01, 0x00, 0, 0, 0, 0, 0]
       \<lparr> address = ''10.0.0.3'', family = ''IPv4'', port = 40001, size_field = 7 \<rparr>
     = ([ConsoleLog (SocketRECVError RangeError)],
        \<lparr> currentSequenceNumber = Some 7,
          currentRemoteInfo =
            Some \<lparr> address = ''10.0.0.2'', family = ''IPv4'', port = 40000, size_field = 9 \<rparr>,
          currentPacketType = Some controlCommand \<rparr>)
   \<and> socket_on_message initial_session [0xFF, 0xFF, 0]
       \<lparr> address = ''10.0.0.3'', family = ''IPv4'', port = 40001, size_field = 3 \<rparr>
     = ([ConsoleLog (SocketRECVError (UnknownPacketType 0xFFFF))], initial_session)"
  using decode_short_input [of "[]"]
        decode_short_input
          [of "[0x01, 0x00, 0, 0, 0, 0, 0]"
              "\<lparr> currentSequenceNumber = Some 7,
                 currentRemoteInfo =
                   Some \<lparr> address = ''10.0.0.2'', family = ''IPv4'', port = 40000,
                          size_field = 9 \<rparr>,
                 currentPacketType = Some controlCommand \<rparr>"
              "\<lparr> address = ''10.0.0.3'', family = ''IPv4'', port = 40001, size_field = 7 \<rparr>"]
        decode_short_input
          [of "[0xFF, 0xFF, 0]" initial_session
              "\<lparr> address = ''10.0.0.3'', family = ''IPv4'', port = 40001, size_field = 3 \<rparr>"]
  by (simp add: known_codes_def)

text \<open>
  Claim C8, as the specification words it, fails: on the empty input (and on seven bytes
  with a known code) the failure is a \<^verbatim>\<open>RangeError\<close>, not one of the two defined
  decoding failures.
\<close>

theorem decode_short_input_counterexample:
  "length ([] :: Buffer) < 8
   \<and> fromBuffer [] = Inl RangeError
   \<and> fromBuffer [0x01, 0x00, 0, 0, 0, 0, 0] = Inl RangeError
   \<and> \<not> is_MalformedPacket RangeError"
  by (simp add: fromBuffer_def readUInt16BE_def readUInt32BE_def parseType_def)





end
